theory Spec2Isabelle
  imports Complex_Main "HOL-Library.AList"
begin

section \<open>Data model\<close>

text \<open>
  A langchain \<open>Document\<close> is a text with a metadata dictionary. The dictionary maps
  string keys to values; the program stores a string under \<open>source\<close> and an integer
  under \<open>file_id\<close>. The dictionary is an association list, and the assignment
  \<open>d[k] = v\<close> is \<open>AList.update k v d\<close>.
\<close>

datatype meta_value = MStr string | MInt int

type_synonym metadata = "(string \<times> meta_value) list"

record Document =
  page_content :: string
  metadata :: metadata

text \<open>
  Python exceptions are values. Every constructor stands for a subclass of
  \<open>Exception\<close>: the \<open>ValueError\<close> that \<open>load_and_split_document\<close> raises itself,
  the errors of \<open>open\<close> and \<open>read\<close>, and whatever a loader, the splitter, the embedding
  function, the vector store or the language model raises.
\<close>

datatype py_error =
    ValueError string
  | OSError string
  | UnicodeDecodeError
  | LibraryError string

text \<open>The files on disk: the bytes stored under a path.\<close>

type_synonym files = "string \<rightharpoonup> string"

text \<open>
  The stored unit of the vector index: an internally assigned record id, the vector of
  the chunk's text, and the chunk's text and metadata carried alongside.
\<close>

record 'v EmbeddingRecord =
  rec_id :: nat
  rec_vector :: 'v
  rec_text :: string
  rec_metadata :: metadata

record 'v VectorIndex =
  records :: "'v EmbeddingRecord list"
  next_id :: nat

text \<open>A chat message of the rendered prompt, and the configuration of the model.\<close>

datatype message = SystemMessage string | HumanMessage string

record llm_config =
  llm_model :: string
  llm_api_key :: "string option"
  llm_temperature :: int

text \<open>
  The collaborators the program calls and does not define: the decoding done by
  \<open>open(file_path, 'r', encoding='utf-8').read()\<close>, the three document loaders, the two
  entry points of the text splitter (constructed once with \<open>chunk_size=1000\<close>,
  \<open>chunk_overlap=200\<close>), the embedding function with its similarity score, and the
  language model. Each may raise.
\<close>

record 'v env =
  decode_utf8 :: "string \<Rightarrow> py_error + string"
  pdf_load :: "files \<Rightarrow> string \<Rightarrow> py_error + Document list"
  docx_load :: "files \<Rightarrow> string \<Rightarrow> py_error + Document list"
  html_load :: "files \<Rightarrow> string \<Rightarrow> py_error + Document list"
  split_text :: "string \<Rightarrow> py_error + string list"
  split_documents :: "Document list \<Rightarrow> py_error + Document list"
  embed :: "string \<Rightarrow> py_error + 'v"
  similarity :: "'v \<Rightarrow> 'v \<Rightarrow> real"
  llm_invoke :: "llm_config \<Rightarrow> message list \<Rightarrow> py_error + string"

section \<open>The vector index\<close>

text \<open>
  Modelled from the spec: the vector store itself (the Chroma collection behind
  \<open>vectorstore\<close>), which the source only calls. \<open>add\<close> takes the chunks in their
  order; for each it computes the embedding vector with the fixed embedding function
  and stores the chunk as one record, with its metadata, after the records already
  there. An error of the embedding computation propagates; the chunks stored before it
  stay in the index (the partial failure mid-indexing of sections 4.6 and 7), which is
  why the error comes with the index as the failure left it.
\<close>

fun vi_add ::
  "'v env \<Rightarrow> 'v VectorIndex \<Rightarrow> Document list \<Rightarrow> (py_error \<times> 'v VectorIndex) + 'v VectorIndex" where
  "vi_add E idx [] = Inr idx"
| "vi_add E idx (chunk # chunks) =
     (case embed E (page_content chunk) of
        Inl e \<Rightarrow> Inl (e, idx)
      | Inr v \<Rightarrow>
          vi_add E
            (idx\<lparr>records := records idx @
                    [\<lparr>rec_id = next_id idx, rec_vector = v, rec_text = page_content chunk,
                      rec_metadata = metadata chunk\<rparr>],
                  next_id := Suc (next_id idx)\<rparr>)
            chunks)"

text \<open>
  Modelled from the spec: the metadata-filtered delete of the vector store. It removes
  every record whose metadata document identifier equals the given one; with no matching
  record it is a no-op success.
\<close>

definition has_file_id :: "int \<Rightarrow> 'v EmbeddingRecord \<Rightarrow> bool" where
  "has_file_id file_id r = (map_of (rec_metadata r) ''file_id'' = Some (MInt file_id))"

definition vi_delete :: "'v VectorIndex \<Rightarrow> int \<Rightarrow> py_error + 'v VectorIndex" where
  "vi_delete idx file_id =
     Inr (idx\<lparr>records := filter (\<lambda>r. \<not> has_file_id file_id r) (records idx)\<rparr>)"

text \<open>
  Modelled from the spec: the similarity search of the vector store. It embeds the query
  with the same embedding function and returns the \<open>k\<close> records of highest similarity as
  chunks, ties in insertion order.
\<close>

definition chunk_of :: "'v EmbeddingRecord \<Rightarrow> Document" where
  "chunk_of r = \<lparr>page_content = rec_text r, metadata = rec_metadata r\<rparr>"

definition vi_search :: "'v env \<Rightarrow> 'v VectorIndex \<Rightarrow> string \<Rightarrow> nat \<Rightarrow> py_error + Document list" where
  "vi_search E idx query k =
     (case embed E query of
        Inl e \<Rightarrow> Inl e
      | Inr q \<Rightarrow>
          Inr (map chunk_of
                (take k (sort_key (\<lambda>r. - similarity E q (rec_vector r)) (records idx)))))"

section \<open>chroma\_utils.py\<close>

text \<open>\<open>str.endswith\<close>.\<close>

definition endswith :: "string \<Rightarrow> string \<Rightarrow> bool" where
  "endswith s suf =
     (length suf \<le> length s \<and> drop (length s - length suf) s = suf)"

text \<open>
  \<open>load_and_split_document\<close>: the dispatch on the end of the path, in the order of the
  source. A text file is read and split directly, every chunk becoming a document whose
  metadata is \<open>{"source": file_path}\<close>; the other formats go through their loader and
  \<open>split_documents\<close>; any other path raises \<open>ValueError\<close>.
\<close>

definition read_text_file :: "'v env \<Rightarrow> files \<Rightarrow> string \<Rightarrow> py_error + string" where
  "read_text_file E fs file_path =
     (case fs file_path of
        None \<Rightarrow> Inl (OSError file_path)
      | Some bytes \<Rightarrow> decode_utf8 E bytes)"

definition load_then_split ::
  "'v env \<Rightarrow> (py_error + Document list) \<Rightarrow> py_error + Document list" where
  "load_then_split E loaded =
     (case loaded of Inl e \<Rightarrow> Inl e | Inr documents \<Rightarrow> split_documents E documents)"

definition load_and_split_document ::
  "'v env \<Rightarrow> files \<Rightarrow> string \<Rightarrow> py_error + Document list" where
  "load_and_split_document E fs file_path =
     (if endswith file_path ''.pdf'' then load_then_split E (pdf_load E fs file_path)
      else if endswith file_path ''.docx'' then load_then_split E (docx_load E fs file_path)
      else if endswith file_path ''.html'' then load_then_split E (html_load E fs file_path)
      else if endswith file_path ''.txt'' then
        (case read_text_file E fs file_path of
           Inl e \<Rightarrow> Inl e
         | Inr text \<Rightarrow>
             (case split_text E text of
                Inl e \<Rightarrow> Inl e
              | Inr chunks \<Rightarrow>
                  Inr (map (\<lambda>chunk. \<lparr>page_content = chunk,
                                      metadata = [(''source'', MStr file_path)]\<rparr>) chunks)))
      else Inl (ValueError (''Unsupported file type: '' @ file_path)))"

text \<open>The loop \<open>for split in splits: split.metadata['file_id'] = file_id\<close>.\<close>

definition tag_split :: "int \<Rightarrow> Document \<Rightarrow> Document" where
  "tag_split file_id split =
     split\<lparr>metadata := AList.update ''file_id'' (MInt file_id) (metadata split)\<rparr>"

text \<open>
  \<open>index_document_to_chroma\<close>. The first definition is the body of the \<open>try\<close>, which
  either raises or returns \<open>True\<close>; the second adds the handler
  \<open>except Exception: return False\<close>, which removes nothing from the index. The result is
  the value the call produces (a raised error on the left) and the vector index
  afterwards.
\<close>

definition index_document_try ::
  "'v env \<Rightarrow> files \<Rightarrow> 'v VectorIndex \<Rightarrow> string \<Rightarrow> int \<Rightarrow> (py_error + bool) \<times> 'v VectorIndex" where
  "index_document_try E fs idx file_path file_id =
     (case load_and_split_document E fs file_path of
        Inl e \<Rightarrow> (Inl e, idx)
      | Inr splits \<Rightarrow>
          (case vi_add E idx (map (tag_split file_id) splits) of
             Inl (e, idx') \<Rightarrow> (Inl e, idx')
           | Inr idx' \<Rightarrow> (Inr True, idx')))"

definition index_document_to_chroma ::
  "'v env \<Rightarrow> files \<Rightarrow> 'v VectorIndex \<Rightarrow> string \<Rightarrow> int \<Rightarrow> (py_error + bool) \<times> 'v VectorIndex" where
  "index_document_to_chroma E fs idx file_path file_id =
     (case index_document_try E fs idx file_path file_id of
        (Inl e, idx') \<Rightarrow> (Inr False, idx')
      | (Inr b, idx') \<Rightarrow> (Inr b, idx'))"

text \<open>
  \<open>delete_doc_from_chroma\<close>: the filtered delete inside \<open>try\<close>, \<open>True\<close> when it
  returns and \<open>False\<close> when it raises.
\<close>

definition delete_doc_from_chroma ::
  "'v VectorIndex \<Rightarrow> int \<Rightarrow> (py_error + bool) \<times> 'v VectorIndex" where
  "delete_doc_from_chroma idx file_id =
     (case vi_delete idx file_id of
        Inl e \<Rightarrow> (Inr False, idx)
      | Inr idx' \<Rightarrow> (Inr True, idx'))"

section \<open>langchain\_utils.py\<close>

text \<open>\<open>sep.join(parts)\<close>.\<close>

fun join :: "string \<Rightarrow> string list \<Rightarrow> string" where
  "join sep [] = []"
| "join sep [x] = x"
| "join sep (x # y # ys) = x @ sep @ join sep (y # ys)"

definition newline :: char where
  "newline = CHR 0x0A"

text \<open>\<open>format_docs\<close>: the page contents joined with a blank line.\<close>

definition format_docs :: "Document list \<Rightarrow> string" where
  "format_docs docs = join [newline, newline] (map page_content docs)"

text \<open>\<open>vectorstore.as_retriever(search_kwargs={"k": 2})\<close>.\<close>

definition retriever :: "'v env \<Rightarrow> 'v VectorIndex \<Rightarrow> string \<Rightarrow> py_error + Document list" where
  "retriever E idx query = vi_search E idx query 2"

text \<open>
  The first step of the chain, the dictionary
  \<open>{"context": retriever | format_docs, "input": RunnablePassthrough()}\<close>, as the pair of
  its two values.
\<close>

definition context_and_input ::
  "'v env \<Rightarrow> 'v VectorIndex \<Rightarrow> string \<Rightarrow> py_error + (string \<times> string)" where
  "context_and_input E idx input_text =
     (case retriever E idx input_text of
        Inl e \<Rightarrow> Inl e
      | Inr docs \<Rightarrow> Inr (format_docs docs, input_text))"

text \<open>The prompt template, rendered with \<open>context\<close> and \<open>input\<close>.\<close>

definition system_instruction :: string where
  "system_instruction =
     ''You are a helpful AI assistant. Use the provided context to answer questions.''"

definition prompt :: "string \<times> string \<Rightarrow> message list" where
  "prompt ci =
     [SystemMessage system_instruction,
      SystemMessage (''Context:'' @ [newline] @ fst ci),
      HumanMessage (snd ci)]"

text \<open>
  The model of the chain, \<open>ChatGoogleGenerativeAI(model=model, api_key=..., temperature=0)\<close>;
  \<open>api_key\<close> is the value of the environment variable.
\<close>

definition llm :: "string option \<Rightarrow> string \<Rightarrow> llm_config" where
  "llm api_key model = \<lparr>llm_model = model, llm_api_key = api_key, llm_temperature = 0\<rparr>"

text \<open>
  \<open>rag_chain\<close>: the dictionary step, then the prompt, then the model, then the output
  parser, which hands on the text of the completion.
\<close>

definition rag_chain ::
  "'v env \<Rightarrow> string option \<Rightarrow> 'v VectorIndex \<Rightarrow> string \<Rightarrow> string \<Rightarrow> py_error + string" where
  "rag_chain E api_key idx model input_text =
     (case context_and_input E idx input_text of
        Inl e \<Rightarrow> Inl e
      | Inr ci \<Rightarrow> llm_invoke E (llm api_key model) (prompt ci))"

text \<open>
  \<open>get_rag_chain(model).invoke(input_text)\<close>: the wrapper returns the dictionary
  \<open>{"answer": result}\<close>.
\<close>

definition get_rag_chain_invoke ::
  "'v env \<Rightarrow> string option \<Rightarrow> 'v VectorIndex \<Rightarrow> string \<Rightarrow> string \<Rightarrow>
     py_error + (string \<times> string) list" where
  "get_rag_chain_invoke E api_key idx model input_text =
     (case rag_chain E api_key idx model input_text of
        Inl e \<Rightarrow> Inl e
      | Inr result \<Rightarrow> Inr [(''answer'', result)])"

section \<open>main\_simple.py: the upload endpoint\<close>

text \<open>
  \<open>str.lower\<close> on the letters \<open>A\<close> to \<open>Z\<close>; every other character is left as it is.
\<close>

definition lower_char :: "char \<Rightarrow> char" where
  "lower_char c =
     (case map_of (zip ''ABCDEFGHIJKLMNOPQRSTUVWXYZ'' ''abcdefghijklmnopqrstuvwxyz'') c of
        Some l \<Rightarrow> l
      | None \<Rightarrow> c)"

definition lower :: "string \<Rightarrow> string" where
  "lower s = map lower_char s"

text \<open>
  \<open>str.rfind\<close> for one character: the highest index where it occurs, or \<open>-1\<close>.
\<close>

fun rfind :: "string \<Rightarrow> char \<Rightarrow> int" where
  "rfind [] c = - 1"
| "rfind (x # xs) c =
     (let r = rfind xs c in if 0 \<le> r then r + 1 else if x = c then 0 else - 1)"

text \<open>
  \<open>os.path.splitext\<close> (the POSIX version): the extension starts at the last dot of the
  last path component, unless only dots come before it in that component. The loop
  skips the leading dots.
\<close>

function splitext_loop :: "string \<Rightarrow> nat \<Rightarrow> nat \<Rightarrow> (string \<times> string) option" where
  "splitext_loop p dotIndex filenameIndex =
     (if filenameIndex < dotIndex then
        (if p ! filenameIndex \<noteq> CHR ''.'' then Some (take dotIndex p, drop dotIndex p)
         else splitext_loop p dotIndex (filenameIndex + 1))
      else None)"
  by pat_completeness auto
termination
  by (relation "measure (\<lambda>(p, dotIndex, filenameIndex). dotIndex - filenameIndex)") auto

declare splitext_loop.simps [simp del]

definition splitext :: "string \<Rightarrow> string \<times> string" where
  "splitext p =
     (let sepIndex = rfind p CHR ''/'';
          dotIndex = rfind p CHR ''.''
      in if sepIndex < dotIndex then
           (case splitext_loop p (nat dotIndex) (nat (sepIndex + 1)) of
              Some r \<Rightarrow> r
            | None \<Rightarrow> (p, []))
         else (p, []))"

definition allowed_extensions :: "string set" where
  "allowed_extensions = {''.pdf'', ''.docx'', ''.html'', ''.txt''}"

text \<open>
  The state of the application: whether the retrieval components were loaded
  (\<open>RAG_ENABLED\<close> after \<open>lazy_load_rag\<close>), the files on disk, the table of document
  records, and the vector index.
\<close>

record ('v, 'db) app_state =
  rag_enabled :: bool
  disk :: files
  document_db :: 'db
  vectorstore :: "'v VectorIndex"

text \<open>
  The host operations of the endpoint, each of which may raise: creating the upload
  directory, writing the file, and the two statements on the table of documents.
\<close>

record 'db host =
  makedirs :: "files \<Rightarrow> string \<Rightarrow> py_error + files"
  write_file :: "files \<Rightarrow> string \<Rightarrow> string \<Rightarrow> py_error + files"
  insert_document_record :: "'db \<Rightarrow> string \<Rightarrow> py_error + (int \<times> 'db)"
  delete_document_record :: "'db \<Rightarrow> int \<Rightarrow> py_error + 'db"

record upload_file =
  filename :: "string option"
  file_contents :: string

text \<open>
  The \<open>detail\<close> of an \<open>HTTPException\<close>, one constructor for each message of the endpoint,
  with the value the message is formatted from.
\<close>

datatype detail =
    RagNotInitialized
  | NoFileProvided
  | UnsupportedFileType string
  | ErrorSavingFile py_error
  | ErrorRecordingFile py_error
  | ErrorIndexingDocument py_error
  | FailedToIndexDocument
  | UnexpectedError py_error

datatype http_error = HTTPException nat detail

record upload_response =
  resp_file_id :: int
  resp_filename :: string

text \<open>
  The end of \<open>upload_document\<close>, after the call of \<open>index_document_to_chroma\<close>: the
  handler of a raised error and the two branches on \<open>success\<close>. An error of
  \<open>delete_document_record\<close> itself reaches the outer handler.
\<close>

definition after_indexing ::
  "'db host \<Rightarrow> ('v, 'db) app_state \<Rightarrow> string \<Rightarrow> int \<Rightarrow>
     (py_error + bool) \<times> 'v VectorIndex \<Rightarrow>
     (http_error + upload_response) \<times> ('v, 'db) app_state" where
  "after_indexing H s fname file_id r =
     (let s' = s\<lparr>vectorstore := snd r\<rparr> in
      case fst r of
        Inr True \<Rightarrow> (Inr \<lparr>resp_file_id = file_id, resp_filename = fname\<rparr>, s')
      | other \<Rightarrow>
          (case delete_document_record H (document_db s') file_id of
             Inl e' \<Rightarrow> (Inl (HTTPException 500 (UnexpectedError e')), s')
           | Inr db' \<Rightarrow>
               (Inl (case other of
                       Inl e \<Rightarrow> HTTPException 500 (ErrorIndexingDocument e)
                     | Inr b \<Rightarrow> HTTPException 400 FailedToIndexDocument),
                s'\<lparr>document_db := db'\<rparr>)))"

text \<open>
  The extension check of \<open>upload_document\<close>:
  \<open>os.path.splitext(file.filename)[1].lower()\<close> against the allowed set.
\<close>

definition file_ext_of :: "string \<Rightarrow> string" where
  "file_ext_of fname = lower (snd (splitext fname))"

definition upload_document ::
  "'db host \<Rightarrow> 'v env \<Rightarrow> ('v, 'db) app_state \<Rightarrow> upload_file \<Rightarrow>
     (http_error + upload_response) \<times> ('v, 'db) app_state" where
  "upload_document H E s file =
     (if \<not> rag_enabled s then (Inl (HTTPException 503 RagNotInitialized), s)
      else case filename file of
        None \<Rightarrow> (Inl (HTTPException 400 NoFileProvided), s)
      | Some fname \<Rightarrow>
          if fname = [] then (Inl (HTTPException 400 NoFileProvided), s)
          else if file_ext_of fname \<notin> allowed_extensions then
            (Inl (HTTPException 400 (UnsupportedFileType (file_ext_of fname))), s)
          else
            (case makedirs H (disk s) ''uploads'' of
               Inl e \<Rightarrow> (Inl (HTTPException 500 (UnexpectedError e)), s)
             | Inr fs0 \<Rightarrow>
                 (case write_file H fs0 (''uploads/'' @ fname) (file_contents file) of
                    Inl e \<Rightarrow> (Inl (HTTPException 500 (ErrorSavingFile e)), s\<lparr>disk := fs0\<rparr>)
                  | Inr fs1 \<Rightarrow>
                      (case insert_document_record H (document_db s) fname of
                         Inl e \<Rightarrow>
                           (Inl (HTTPException 500 (ErrorRecordingFile e)), s\<lparr>disk := fs1\<rparr>)
                       | Inr (file_id, db1) \<Rightarrow>
                           after_indexing H (s\<lparr>disk := fs1, document_db := db1\<rparr>) fname file_id
                             (index_document_to_chroma E fs1 (vectorstore s)
                                (''uploads/'' @ fname) file_id)))))"

section \<open>Concrete collaborators for the examples\<close>

text \<open>
  An environment in which nothing fails: the decoder and the splitter hand the text on
  as one piece, a loader returns the file as one document, a text is embedded as its
  length, and the model answers with the context it was given.
\<close>

definition whole_file :: "files \<Rightarrow> string \<Rightarrow> py_error + Document list" where
  "whole_file fs file_path =
     (case fs file_path of
        None \<Rightarrow> Inl (OSError file_path)
      | Some bytes \<Rightarrow> Inr [\<lparr>page_content = bytes, metadata = [(''source'', MStr file_path)]\<rparr>])"

fun echo_context :: "llm_config \<Rightarrow> message list \<Rightarrow> py_error + string" where
  "echo_context cfg [SystemMessage instruction, SystemMessage context, HumanMessage question] =
     Inr context"
| "echo_context cfg msgs = Inl (LibraryError ''prompt'')"

definition echo_env :: "nat env" where
  "echo_env =
     \<lparr>decode_utf8 = Inr,
      pdf_load = whole_file,
      docx_load = whole_file,
      html_load = whole_file,
      split_text = (\<lambda>t. Inr [t]),
      split_documents = Inr,
      embed = (\<lambda>t. Inr (length t)),
      similarity = (\<lambda>a b. - \<bar>real a - real b\<bar>),
      llm_invoke = echo_context\<rparr>"

text \<open>The same environment with an embedding function that raises on the empty text.\<close>

definition strict_env :: "nat env" where
  "strict_env =
     echo_env\<lparr>embed := (\<lambda>t. if t = [] then Inl (LibraryError ''empty'') else Inr (length t))\<rparr>"

text \<open>
  An environment whose splitter cuts the text after ten characters and whose embedding
  function raises on a text of fewer than eight.
\<close>

definition flaky_env :: "nat env" where
  "flaky_env =
     echo_env\<lparr>split_text := (\<lambda>t. Inr [take 10 t, drop 10 t]),
              embed := (\<lambda>t. if length t < 8 then Inl (LibraryError ''embedding'')
                             else Inr (length t))\<rparr>"

definition empty_index :: "nat VectorIndex" where
  "empty_index = \<lparr>records = [], next_id = 0\<rparr>"

definition sky_files :: files where
  "sky_files =
     [''sky.txt'' \<mapsto> ''The sky is blue.'',
      ''sea.txt'' \<mapsto> ''The sea is deep.'',
      ''empty.txt'' \<mapsto> []]"

text \<open>An index holding one chunk of document 1 and one chunk of document 2.\<close>

definition sky_record :: "nat EmbeddingRecord" where
  "sky_record =
     \<lparr>rec_id = 0, rec_vector = 16, rec_text = ''The sky is blue.'',
      rec_metadata = [(''source'', MStr ''sky.txt''), (''file_id'', MInt 1)]\<rparr>"

definition sea_record :: "nat EmbeddingRecord" where
  "sea_record =
     \<lparr>rec_id = 1, rec_vector = 16, rec_text = ''The sea is deep.'',
      rec_metadata = [(''source'', MStr ''sea.txt''), (''file_id'', MInt 2)]\<rparr>"

definition two_docs_index :: "nat VectorIndex" where
  "two_docs_index = \<lparr>records = [sky_record, sea_record], next_id = 2\<rparr>"

text \<open>The record of the first ten characters of \<open>sky.txt\<close>, stored for document 3.\<close>

definition half_record :: "nat EmbeddingRecord" where
  "half_record =
     \<lparr>rec_id = 2, rec_vector = 10, rec_text = ''The sky is'',
      rec_metadata = [(''source'', MStr ''sky.txt''), (''file_id'', MInt 3)]\<rparr>"

text \<open>
  A host on which nothing fails. The table of documents is the last row id given out
  and the rows.
\<close>

type_synonym doc_table = "int \<times> (int \<times> string) list"

definition ok_host :: "doc_table host" where
  "ok_host =
     \<lparr>makedirs = (\<lambda>fs d. Inr fs),
      write_file = (\<lambda>fs file_path bytes. Inr (fs(file_path \<mapsto> bytes))),
      insert_document_record =
        (\<lambda>db fname. Inr (fst db + 1, (fst db + 1, snd db @ [(fst db + 1, fname)]))),
      delete_document_record =
        (\<lambda>db file_id. Inr (fst db, filter (\<lambda>row. fst row \<noteq> file_id) (snd db)))\<rparr>"

definition fresh_app :: "(nat, doc_table) app_state" where
  "fresh_app =
     \<lparr>rag_enabled = True, disk = Map.empty, document_db = (0, []), vectorstore = empty_index\<rparr>"

section \<open>Auxiliary facts\<close>

subsection \<open>Strings and paths\<close>

lemma endswith_iff: "endswith s suf \<longleftrightarrow> (\<exists>r. s = r @ suf)"
proof
  assume "endswith s suf"
  then have "s = take (length s - length suf) s @ suf"
    by (metis append_take_drop_id endswith_def)
  then show "\<exists>r. s = r @ suf" ..
next
  assume "\<exists>r. s = r @ suf"
  then show "endswith s suf" by (auto simp: endswith_def)
qed

lemma endswith_append_short:
  "length suf \<le> length e \<Longrightarrow> endswith (r @ e) suf = endswith e suf"
  by (simp add: endswith_def)

lemma endswith_append_long:
  assumes "length e \<le> length suf" "endswith (r @ e) suf"
  shows "endswith suf e"
proof -
  from assms(2) obtain r' where "r @ e = r' @ suf"
    by (auto simp: endswith_iff)
  with assms(1) obtain x where "suf = x @ e"
    by (auto simp: append_eq_append_conv2)
  then show ?thesis by (auto simp: endswith_iff)
qed

lemma splitext_loop_result:
  "splitext_loop p n i = Some r \<Longrightarrow> r = (take n p, drop n p)"
proof (induction p n i rule: splitext_loop.induct)
  case (1 p dotIndex filenameIndex)
  from "1.prems" show ?case
    by (subst (asm) splitext_loop.simps) (auto split: if_splits dest: "1.IH")
qed

lemma splitext_append: "fst (splitext p) @ snd (splitext p) = p"
  by (auto simp: splitext_def Let_def split: option.splits dest!: splitext_loop_result)

lemma lower_char_dot: "lower_char c = CHR ''.'' \<Longrightarrow> c = CHR ''.''"
  by (auto simp: lower_char_def split: option.splits if_splits)

lemma lower_char_of_dot: "lower_char CHR ''.'' = CHR ''.''"
  by (simp add: lower_char_def)

lemma lower_eq_Cons:
  "lower s = c # cs \<longleftrightarrow> (\<exists>x xs. s = x # xs \<and> lower_char x = c \<and> lower xs = cs)"
  by (auto simp: lower_def map_eq_Cons_conv)

lemma lower_eq_Nil: "lower s = [] \<longleftrightarrow> s = []"
  by (simp add: lower_def)

text \<open>
  A path that ends in a differently cased spelling of an allowed extension ends in none
  of the four suffixes the loader looks for: first for the extensions of four characters,
  then for those of five.
\<close>

lemma ext4_not_suffix:
  assumes "lower e \<in> {''.pdf'', ''.txt''}" "e \<notin> allowed_extensions"
  shows "\<not> endswith (r @ e) ''.pdf'' \<and> \<not> endswith (r @ e) ''.docx'' \<and>
         \<not> endswith (r @ e) ''.html'' \<and> \<not> endswith (r @ e) ''.txt''"
proof -
  from assms(1) obtain a b c where e: "e = [CHR ''.'', a, b, c]"
    by (auto simp: lower_eq_Cons lower_eq_Nil dest: lower_char_dot)
  have len: "length ''.pdf'' \<le> length e" "length ''.txt'' \<le> length e"
    "length e \<le> length ''.docx''" "length e \<le> length ''.html''"
    by (simp_all add: e)
  have "\<not> endswith e ''.pdf''" "\<not> endswith e ''.txt''"
    using assms(2) by (auto simp: e endswith_def allowed_extensions_def)
  then have short: "\<not> endswith (r @ e) ''.pdf''" "\<not> endswith (r @ e) ''.txt''"
    using len by (simp_all add: endswith_append_short)
  have "\<not> endswith ''.docx'' e" "\<not> endswith ''.html'' e"
    by (simp_all add: e endswith_def)
  then have long: "\<not> endswith (r @ e) ''.docx''" "\<not> endswith (r @ e) ''.html''"
    using len endswith_append_long by blast+
  from short long show ?thesis by simp
qed

lemma ext5_not_suffix:
  assumes "lower e \<in> {''.docx'', ''.html''}" "e \<notin> allowed_extensions"
  shows "\<not> endswith (r @ e) ''.pdf'' \<and> \<not> endswith (r @ e) ''.docx'' \<and>
         \<not> endswith (r @ e) ''.html'' \<and> \<not> endswith (r @ e) ''.txt''"
proof -
  from assms(1) obtain a b c d where e: "e = [CHR ''.'', a, b, c, d]"
    and a: "lower_char a = CHR ''d'' \<or> lower_char a = CHR ''h''"
    by (auto simp: lower_eq_Cons lower_eq_Nil dest: lower_char_dot)
  have len: "length ''.pdf'' \<le> length e" "length ''.txt'' \<le> length e"
    "length ''.docx'' \<le> length e" "length ''.html'' \<le> length e"
    by (simp_all add: e)
  have "a \<noteq> CHR ''.''"
    using a lower_char_of_dot by auto
  then have "\<not> endswith e ''.pdf''" "\<not> endswith e ''.txt''"
    by (simp_all add: e endswith_def)
  moreover have "\<not> endswith e ''.docx''" "\<not> endswith e ''.html''"
    using assms(2) by (auto simp: e endswith_def allowed_extensions_def)
  ultimately show ?thesis
    using len by (simp add: endswith_append_short)
qed

lemma upper_ext_not_suffix:
  assumes "lower e \<in> allowed_extensions" "e \<notin> allowed_extensions"
  shows "\<not> endswith (r @ e) ''.pdf'' \<and> \<not> endswith (r @ e) ''.docx'' \<and>
         \<not> endswith (r @ e) ''.html'' \<and> \<not> endswith (r @ e) ''.txt''"
proof -
  from assms(1) have "lower e \<in> {''.pdf'', ''.txt''} \<or> lower e \<in> {''.docx'', ''.html''}"
    by (auto simp: allowed_extensions_def)
  then show ?thesis
    using ext4_not_suffix [OF _ assms(2)] ext5_not_suffix [OF _ assms(2)] by blast
qed

subsection \<open>Loading and indexing\<close>

lemma unsupported_raises:
  assumes "\<not> endswith p ''.pdf''" "\<not> endswith p ''.docx''"
    "\<not> endswith p ''.html''" "\<not> endswith p ''.txt''"
  shows "load_and_split_document E fs p = Inl (ValueError (''Unsupported file type: '' @ p))"
  using assms by (simp add: load_and_split_document_def)

lemma index_load_error:
  "load_and_split_document E fs p = Inl e \<Longrightarrow>
   index_document_to_chroma E fs idx p d = (Inr False, idx)"
  by (simp add: index_document_to_chroma_def index_document_try_def)

lemma index_result:
  "fst (index_document_to_chroma E fs idx p d) =
     Inr (\<exists>splits. load_and_split_document E fs p = Inr splits \<and>
            (\<exists>idx'. vi_add E idx (map (tag_split d) splits) = Inr idx'))"
  by (auto simp: index_document_to_chroma_def index_document_try_def split: sum.splits prod.splits)

text \<open>
  What \<open>add\<close> leaves behind: on success the old records followed by one record per
  chunk, on failure the old records followed by the records of the chunks before the one
  whose embedding raised.
\<close>

lemma vi_add_Inr:
  "vi_add E idx cs = Inr idx' \<Longrightarrow>
   \<exists>new. records idx' = records idx @ new \<and> map chunk_of new = cs"
proof (induction cs arbitrary: idx)
  case Nil
  then show ?case by simp
next
  case (Cons c cs)
  from Cons.prems obtain v where v: "embed E (page_content c) = Inr v"
    by (auto split: sum.splits)
  let ?r = "\<lparr>rec_id = next_id idx, rec_vector = v, rec_text = page_content c,
             rec_metadata = metadata c\<rparr>"
  let ?idx1 = "idx\<lparr>records := records idx @ [?r], next_id := Suc (next_id idx)\<rparr>"
  from Cons.prems v have "vi_add E ?idx1 cs = Inr idx'"
    by simp
  from Cons.IH [OF this] obtain new
    where new: "records idx' = records ?idx1 @ new" "map chunk_of new = cs"
    by (elim exE conjE)
  have "records idx' = records idx @ (?r # new)"
    using new(1) by simp
  moreover have "map chunk_of (?r # new) = c # cs"
    using new(2) by (simp add: chunk_of_def)
  ultimately have "records idx' = records idx @ (?r # new) \<and> map chunk_of (?r # new) = c # cs"
    by (rule conjI)
  then show ?case by (rule exI)
qed


lemma tagged_chunk: "chunk_of r = tag_split d split \<Longrightarrow> has_file_id d r"
proof -
  assume "chunk_of r = tag_split d split"
  then have "metadata (chunk_of r) = metadata (tag_split d split)"
    by simp
  then have "rec_metadata r = AList.update ''file_id'' (MInt d) (metadata split)"
    by (simp add: chunk_of_def tag_split_def)
  then show ?thesis
    by (simp add: has_file_id_def update_conv')
qed

lemma tagged_chunks:
  assumes "map chunk_of new = take n (map (tag_split d) splits)"
  shows "\<forall>r \<in> set new. has_file_id d r"
proof
  fix r
  assume "r \<in> set new"
  then have "chunk_of r \<in> set (map chunk_of new)"
    by simp
  then have "chunk_of r \<in> set (map (tag_split d) splits)"
    unfolding assms by (rule in_set_takeD)
  then obtain split where "chunk_of r = tag_split d split"
    by auto
  then show "has_file_id d r"
    by (rule tagged_chunk)
qed

lemma tagged_all_chunks:
  assumes "map chunk_of new = map (tag_split d) splits"
  shows "\<forall>r \<in> set new. has_file_id d r"
proof -
  have "map chunk_of new = take (length splits) (map (tag_split d) splits)"
    using assms by simp
  then show ?thesis by (rule tagged_chunks)
qed

lemma index_success:
  assumes "fst (index_document_to_chroma E fs idx p d) = Inr True"
  obtains splits new where "load_and_split_document E fs p = Inr splits"
    and "records (snd (index_document_to_chroma E fs idx p d)) = records idx @ new"
    and "map chunk_of new = map (tag_split d) splits"
proof -
  from assms obtain splits idx' where l: "load_and_split_document E fs p = Inr splits"
    and a: "vi_add E idx (map (tag_split d) splits) = Inr idx'"
    by (auto simp: index_result)
  then have s: "snd (index_document_to_chroma E fs idx p d) = idx'"
    by (simp add: index_document_to_chroma_def index_document_try_def)
  from vi_add_Inr [OF a] obtain new where "records idx' = records idx @ new"
    "map chunk_of new = map (tag_split d) splits"
    by (elim exE conjE)
  with l s show ?thesis
    by (intro that) simp_all
qed



subsection \<open>Deleting and searching\<close>

lemma delete_records:
  "snd (delete_doc_from_chroma idx d) =
     idx\<lparr>records := filter (\<lambda>r. \<not> has_file_id d r) (records idx)\<rparr>"
  by (simp add: delete_doc_from_chroma_def vi_delete_def)

lemma delete_returns_True: "fst (delete_doc_from_chroma idx d) = Inr True"
  by (simp add: delete_doc_from_chroma_def vi_delete_def)

lemma delete_noop:
  assumes "\<forall>r \<in> set (records idx). \<not> has_file_id d r"
  shows "delete_doc_from_chroma idx d = (Inr True, idx)"
proof -
  have "filter (\<lambda>r. \<not> has_file_id d r) (records idx) = records idx"
    using assms by (simp add: filter_id_conv)
  then show ?thesis
    by (simp add: delete_doc_from_chroma_def vi_delete_def)
qed

lemma search_all:
  assumes "vi_search E idx q k = Inr found" "length (records idx) \<le> k"
  shows "set found = chunk_of ` set (records idx)"
  using assms by (auto simp: vi_search_def split: sum.splits)

lemma chunk_of_file_id:
  "map_of (metadata (chunk_of r)) ''file_id'' = Some (MInt d) \<longleftrightarrow> has_file_id d r"
  by (simp add: chunk_of_def has_file_id_def)

subsection \<open>Evaluating the examples\<close>

lemmas example_defs =
  load_and_split_document_def endswith_def load_then_split_def whole_file_def echo_env_def
  read_text_file_def sky_files_def index_document_to_chroma_def index_document_try_def
  tag_split_def empty_index_def two_docs_index_def strict_env_def flaky_env_def half_record_def
  sky_record_def sea_record_def

lemma delete_doc_1:
  "delete_doc_from_chroma two_docs_index 1 =
     (Inr True, \<lparr>records = [sea_record], next_id = 2\<rparr>)"
  by (simp add: delete_doc_from_chroma_def vi_delete_def two_docs_index_def sky_record_def
      sea_record_def has_file_id_def)

lemma file_ext_xyz: "file_ext_of ''file.xyz'' = ''.xyz''"
  by (simp add: file_ext_of_def splitext_def Let_def splitext_loop.simps lower_def lower_char_def)

lemma ext_TXT: "snd (splitext ''notes.TXT'') = ''.TXT''"
  by (simp add: splitext_def Let_def splitext_loop.simps)

section \<open>Deletion\<close>

text \<open>
  Claim C1. For every index and every document identifier, \<open>delete\<close> removes every
  record whose metadata \<open>file_id\<close> equals the identifier, and every other record stays
  in the index as it was, in its place. A search afterwards with \<open>k\<close> at least the size
  of the index returns no chunk with that \<open>file_id\<close> and the chunk of every record with
  another one.
\<close>

theorem delete_removes_document:
  "fst (delete_doc_from_chroma idx d) = Inr True \<and>
   records (snd (delete_doc_from_chroma idx d)) =
     filter (\<lambda>r. \<not> has_file_id d r) (records idx) \<and>
   (\<forall>q k found.
      length (records idx) \<le> k \<and>
      vi_search E (snd (delete_doc_from_chroma idx d)) q k = Inr found \<longrightarrow>
      (\<forall>c \<in> set found. map_of (metadata c) ''file_id'' \<noteq> Some (MInt d)) \<and>
      (\<forall>r \<in> set (records idx). \<not> has_file_id d r \<longrightarrow> chunk_of r \<in> set found))"
proof -
  let ?idx' = "snd (delete_doc_from_chroma idx d)"
  have recs: "records ?idx' = filter (\<lambda>r. \<not> has_file_id d r) (records idx)"
    by (simp add: delete_records)
  have "(\<forall>c \<in> set found. map_of (metadata c) ''file_id'' \<noteq> Some (MInt d)) \<and>
        (\<forall>r \<in> set (records idx). \<not> has_file_id d r \<longrightarrow> chunk_of r \<in> set found)"
    if k: "length (records idx) \<le> k" and s: "vi_search E ?idx' q k = Inr found" for q k found
  proof -
    have "length (records ?idx') \<le> k"
      using k by (simp add: recs le_trans [OF length_filter_le])
    from search_all [OF s this]
    have "set found = chunk_of ` {r \<in> set (records idx). \<not> has_file_id d r}"
      by (simp add: recs)
    then show ?thesis
      by (auto simp: chunk_of_file_id)
  qed
  then show ?thesis
    using recs delete_returns_True by blast
qed

theorem delete_removes_document_witness:
  "length (records two_docs_index) \<le> 5 \<and>
   vi_search echo_env (snd (delete_doc_from_chroma two_docs_index 1)) ''sky'' 5 =
     Inr [chunk_of sea_record] \<and>
   records (snd (delete_doc_from_chroma two_docs_index 1)) = [sea_record] \<and>
   map_of (metadata (chunk_of sea_record)) ''file_id'' \<noteq> Some (MInt 1) \<and>
   sea_record \<in> set (records two_docs_index) \<and>
   \<not> has_file_id 1 sea_record \<and>
   chunk_of sea_record \<in> set [chunk_of sea_record]"
proof -
  have r: "records (snd (delete_doc_from_chroma two_docs_index 1)) = [sea_record]"
    by (simp add: delete_doc_1)
  have s: "vi_search echo_env (snd (delete_doc_from_chroma two_docs_index 1)) ''sky'' 5 =
     Inr [chunk_of sea_record]"
    by (simp add: delete_doc_1 vi_search_def echo_env_def)
  have l: "length (records two_docs_index) \<le> 5"
    by (simp add: two_docs_index_def)
  have m: "sea_record \<in> set (records two_docs_index)" "\<not> has_file_id 1 sea_record"
    by (simp_all add: two_docs_index_def sea_record_def has_file_id_def)
  from delete_removes_document [of two_docs_index 1 echo_env]
  have "\<forall>q k found.
      length (records two_docs_index) \<le> k \<and>
      vi_search echo_env (snd (delete_doc_from_chroma two_docs_index 1)) q k = Inr found \<longrightarrow>
      (\<forall>c \<in> set found. map_of (metadata c) ''file_id'' \<noteq> Some (MInt 1)) \<and>
      (\<forall>r \<in> set (records two_docs_index). \<not> has_file_id 1 r \<longrightarrow> chunk_of r \<in> set found)"
    by blast
  with l s have
    "(\<forall>c \<in> set [chunk_of sea_record]. map_of (metadata c) ''file_id'' \<noteq> Some (MInt 1)) \<and>
     (\<forall>r \<in> set (records two_docs_index). \<not> has_file_id 1 r \<longrightarrow>
        chunk_of r \<in> set [chunk_of sea_record])"
    by blast
  then have x: "map_of (metadata (chunk_of sea_record)) ''file_id'' \<noteq> Some (MInt 1)"
    by simp
  have y: "chunk_of sea_record \<in> set [chunk_of sea_record]"
    by simp
  from l s r x m y show ?thesis
    by (intro conjI)

qed

text \<open>
  Claim C7. Delete is idempotent: on an index with no record of the identifier it
  returns success and changes nothing; on any index it returns success, and a second
  delete of the same identifier returns success again and leaves the index as the first
  one left it.
\<close>

theorem delete_idempotent:
  "((\<forall>r \<in> set (records idx). \<not> has_file_id d r) \<longrightarrow>
      delete_doc_from_chroma idx d = (Inr True, idx)) \<and>
   fst (delete_doc_from_chroma idx d) = Inr True \<and>
   delete_doc_from_chroma (snd (delete_doc_from_chroma idx d)) d =
     (Inr True, snd (delete_doc_from_chroma idx d))"
proof -
  have "\<forall>r \<in> set (records (snd (delete_doc_from_chroma idx d))). \<not> has_file_id d r"
    by (simp add: delete_records)
  then have "delete_doc_from_chroma (snd (delete_doc_from_chroma idx d)) d =
     (Inr True, snd (delete_doc_from_chroma idx d))"
    by (rule delete_noop)
  then show ?thesis
    using delete_noop [of idx d] delete_returns_True [of idx d] by blast
qed

theorem delete_idempotent_witness:
  "\<not> has_file_id 3 sky_record \<and> \<not> has_file_id 3 sea_record \<and>
   delete_doc_from_chroma two_docs_index 3 = (Inr True, two_docs_index) \<and>
   delete_doc_from_chroma two_docs_index 1 = (Inr True, \<lparr>records = [sea_record], next_id = 2\<rparr>) \<and>
   delete_doc_from_chroma \<lparr>records = [sea_record], next_id = 2\<rparr> 1 =
     (Inr True, \<lparr>records = [sea_record], next_id = 2\<rparr>)"
proof -
  have a: "\<not> has_file_id 3 sky_record" and b: "\<not> has_file_id 3 sea_record"
    by (simp_all add: sky_record_def sea_record_def has_file_id_def)
  then have none: "\<forall>r \<in> set (records two_docs_index). \<not> has_file_id 3 r"
    by (simp add: two_docs_index_def)
  have c: "delete_doc_from_chroma two_docs_index 3 = (Inr True, two_docs_index)"
    by (rule delete_idempotent [of two_docs_index 3, THEN conjunct1, THEN mp, OF none])
  have "delete_doc_from_chroma (snd (delete_doc_from_chroma two_docs_index 1)) 1 =
          (Inr True, snd (delete_doc_from_chroma two_docs_index 1))"
    by (rule delete_idempotent [of two_docs_index 1, THEN conjunct2, THEN conjunct2])
  then have d: "delete_doc_from_chroma \<lparr>records = [sea_record], next_id = 2\<rparr> 1 =
     (Inr True, \<lparr>records = [sea_record], next_id = 2\<rparr>)"
    by (simp only: delete_doc_1 snd_conv)
  from a b c delete_doc_1 d show ?thesis
    by (intro conjI)
qed

section \<open>Ingestion\<close>

text \<open>
  Claim C2. Ingestion returns a boolean, and when it returns \<open>True\<close> the index is the
  old one followed by new records, every one of which carries the given document
  identifier under \<open>file_id\<close>.
\<close>

theorem ingest_tags_records:
  "(\<exists>b. fst (index_document_to_chroma E fs idx p d) = Inr b) \<and>
   (fst (index_document_to_chroma E fs idx p d) = Inr True \<longrightarrow>
      (\<exists>new. records (snd (index_document_to_chroma E fs idx p d)) = records idx @ new \<and>
             (\<forall>r \<in> set new. has_file_id d r)))"
proof -
  have "\<exists>new. records (snd (index_document_to_chroma E fs idx p d)) = records idx @ new \<and>
             (\<forall>r \<in> set new. has_file_id d r)"
    if "fst (index_document_to_chroma E fs idx p d) = Inr True"
    using that
  proof (rule index_success)
    fix splits new
    assume r: "records (snd (index_document_to_chroma E fs idx p d)) = records idx @ new"
      and "map chunk_of new = map (tag_split d) splits"
    then have "\<forall>r \<in> set new. has_file_id d r"
      by (intro tagged_all_chunks)
    with r have "records (snd (index_document_to_chroma E fs idx p d)) = records idx @ new \<and>
             (\<forall>r \<in> set new. has_file_id d r)"
      by (rule conjI)
    then show ?thesis by (rule exI)
  qed
  then show ?thesis
    by (simp add: index_result)
qed

theorem ingest_tags_records_witness:
  "fst (index_document_to_chroma echo_env sky_files two_docs_index ''sky.txt'' 42) = Inr True \<and>
   (\<exists>new. records (snd (index_document_to_chroma echo_env sky_files two_docs_index
                          ''sky.txt'' 42)) = records two_docs_index @ new \<and>
          (\<forall>r \<in> set new. has_file_id 42 r))"
proof -
  have "fst (index_document_to_chroma echo_env sky_files two_docs_index ''sky.txt'' 42) = Inr True"
    by (simp add: example_defs)
  then show ?thesis
    using ingest_tags_records [of echo_env sky_files two_docs_index "''sky.txt''" 42] by simp
qed

text \<open>
  Claim C9. \<open>index_document_to_chroma\<close> never hands an exception to its caller: its
  result is always a returned boolean, and the boolean is \<open>True\<close> exactly when loading
  and splitting returned the splits and adding the tagged splits to the index returned.
\<close>

theorem index_never_propagates:
  "fst (index_document_to_chroma E fs idx p d) =
     Inr (\<exists>splits. load_and_split_document E fs p = Inr splits \<and>
            (\<exists>idx'. vi_add E idx (map (tag_split d) splits) = Inr idx'))"
  by (rule index_result)

text \<open>
  The three cases on examples: the embedding raises, reading the file raises, nothing
  raises.
\<close>

theorem index_never_propagates_witness:
  "fst (index_document_to_chroma strict_env sky_files two_docs_index ''empty.txt'' 3) = Inr False \<and>
   fst (index_document_to_chroma strict_env sky_files two_docs_index ''missing.txt'' 3) = Inr False \<and>
   fst (index_document_to_chroma strict_env sky_files two_docs_index ''sky.txt'' 3) = Inr True"
  using index_never_propagates [of strict_env sky_files two_docs_index "''empty.txt''" 3]
    index_never_propagates [of strict_env sky_files two_docs_index "''missing.txt''" 3]
    index_never_propagates [of strict_env sky_files two_docs_index "''sky.txt''" 3]
  by (simp add: example_defs)

text \<open>
  Claim C3, as the program has it. A path that ends in none of \<open>.pdf\<close>, \<open>.docx\<close>,
  \<open>.html\<close>, \<open>.txt\<close> makes \<open>load_and_split_document\<close> raise \<open>ValueError\<close> with the
  whole path in its message; \<open>index_document_to_chroma\<close> catches it, so that ingestion
  returns \<open>False\<close> and leaves the index as it was. The error that carries the
  rejected extension, in lower case, is the HTTP 400 of the upload endpoint, which
  leaves the whole application state as it was.
\<close>

theorem unsupported_file_type:
  "(\<not> endswith p ''.pdf'' \<and> \<not> endswith p ''.docx'' \<and>
    \<not> endswith p ''.html'' \<and> \<not> endswith p ''.txt'' \<longrightarrow>
      load_and_split_document E fs p = Inl (ValueError (''Unsupported file type: '' @ p)) \<and>
      index_document_to_chroma E fs idx p d = (Inr False, idx)) \<and>
   (rag_enabled s \<and> fname \<noteq> [] \<and> file_ext_of fname \<notin> allowed_extensions \<longrightarrow>
      upload_document H E s \<lparr>filename = Some fname, file_contents = c\<rparr> =
        (Inl (HTTPException 400 (UnsupportedFileType (file_ext_of fname))), s))"
  by (simp add: unsupported_raises index_load_error upload_document_def)

theorem unsupported_file_type_witness:
  "\<not> endswith ''file.xyz'' ''.pdf'' \<and> \<not> endswith ''file.xyz'' ''.docx'' \<and>
   \<not> endswith ''file.xyz'' ''.html'' \<and> \<not> endswith ''file.xyz'' ''.txt'' \<and>
   load_and_split_document echo_env sky_files ''file.xyz'' =
     Inl (ValueError ''Unsupported file type: file.xyz'') \<and>
   index_document_to_chroma echo_env sky_files two_docs_index ''file.xyz'' 7 =
     (Inr False, two_docs_index) \<and>
   rag_enabled fresh_app \<and> file_ext_of ''file.xyz'' \<notin> allowed_extensions \<and>
   upload_document ok_host echo_env fresh_app
       \<lparr>filename = Some ''file.xyz'', file_contents = ''x''\<rparr> =
     (Inl (HTTPException 400 (UnsupportedFileType ''.xyz'')), fresh_app)"
  using unsupported_file_type [of "''file.xyz''" echo_env sky_files two_docs_index 7 fresh_app
      "''file.xyz''" ok_host "''x''"]
  by (simp add: endswith_def file_ext_xyz allowed_extensions_def fresh_app_def)

text \<open>
  Claim C3 as stated fails: ingesting \<open>file.xyz\<close> returns \<open>False\<close> instead of failing
  with an error, and the error raised inside carries the path \<open>file.xyz\<close>, not the
  extension \<open>.xyz\<close>.
\<close>

theorem unsupported_file_type_counterexample:
  "index_document_to_chroma echo_env sky_files empty_index ''file.xyz'' 7 =
     (Inr False, empty_index) \<and>
   load_and_split_document echo_env sky_files ''file.xyz'' =
     Inl (ValueError ''Unsupported file type: file.xyz'')"
  by (simp add: example_defs)





text \<open>
  Claim C10. The extension is what \<open>os.path.splitext\<close> returns for the file name. When
  it is not one of the four allowed extensions but its lower-case form is, the check of
  the upload endpoint passes, \<open>load_and_split_document\<close> raises on the saved path,
  indexing returns \<open>False\<close> with the index as it was, and, where saving and recording
  the file succeed, the upload ends in the HTTP 400 "Failed to index document".
\<close>

theorem uppercase_extension_fails:
  assumes "snd (splitext fname) \<notin> allowed_extensions"
    and "lower (snd (splitext fname)) \<in> allowed_extensions"
  shows "file_ext_of fname \<in> allowed_extensions \<and>
         load_and_split_document E fs (''uploads/'' @ fname) =
           Inl (ValueError (''Unsupported file type: '' @ ''uploads/'' @ fname)) \<and>
         index_document_to_chroma E fs idx (''uploads/'' @ fname) d = (Inr False, idx) \<and>
         (rag_enabled s \<and>
          makedirs H (disk s) ''uploads'' = Inr fs0 \<and>
          write_file H fs0 (''uploads/'' @ fname) c = Inr fs1 \<and>
          insert_document_record H (document_db s) fname = Inr (file_id, db1) \<and>
          delete_document_record H db1 file_id = Inr db2 \<longrightarrow>
          fst (upload_document H E s \<lparr>filename = Some fname, file_contents = c\<rparr>) =
            Inl (HTTPException 400 FailedToIndexDocument))"
proof -
  obtain r where r: "fname = r @ snd (splitext fname)"
    by (metis splitext_append)
  have "''uploads/'' @ fname = (''uploads/'' @ r) @ snd (splitext fname)"
    using r by simp
  then have ns: "\<not> endswith (''uploads/'' @ fname) ''.pdf'' \<and>
                 \<not> endswith (''uploads/'' @ fname) ''.docx'' \<and>
                 \<not> endswith (''uploads/'' @ fname) ''.html'' \<and>
                 \<not> endswith (''uploads/'' @ fname) ''.txt''"
    using upper_ext_not_suffix [OF assms(2) assms(1), of "''uploads/'' @ r"] by simp
  then have load: "load_and_split_document E fs (''uploads/'' @ fname) =
           Inl (ValueError (''Unsupported file type: '' @ ''uploads/'' @ fname))"
    by (simp add: unsupported_raises)
  have idx: "index_document_to_chroma E fs' idx' (''uploads/'' @ fname) d' = (Inr False, idx')"
    for fs' idx' d'
    using ns by (simp add: unsupported_raises index_load_error)
  have ok: "file_ext_of fname \<in> allowed_extensions"
    using assms(2) by (simp add: file_ext_of_def)
  have ne: "fname \<noteq> []"
    using assms(2) by (auto simp: splitext_def allowed_extensions_def lower_def)
  have up: "fst (upload_document H E s \<lparr>filename = Some fname, file_contents = c\<rparr>) =
            Inl (HTTPException 400 FailedToIndexDocument)"
    if "rag_enabled s" "makedirs H (disk s) ''uploads'' = Inr fs0"
       "write_file H fs0 (''uploads/'' @ fname) c = Inr fs1"
       "insert_document_record H (document_db s) fname = Inr (file_id, db1)"
       "delete_document_record H db1 file_id = Inr db2"
    using that ok ne idx [of fs1 "vectorstore s" file_id]
    by (simp add: upload_document_def after_indexing_def)
  from ok load idx up show ?thesis by blast
qed

theorem uppercase_extension_fails_witness:
  "snd (splitext ''notes.TXT'') \<notin> allowed_extensions \<and>
   lower (snd (splitext ''notes.TXT'')) \<in> allowed_extensions \<and>
   file_ext_of ''notes.TXT'' \<in> allowed_extensions \<and>
   load_and_split_document echo_env [''uploads/notes.TXT'' \<mapsto> ''hello''] ''uploads/notes.TXT'' =
     Inl (ValueError ''Unsupported file type: uploads/notes.TXT'') \<and>
   index_document_to_chroma echo_env [''uploads/notes.TXT'' \<mapsto> ''hello''] empty_index
     ''uploads/notes.TXT'' 1 = (Inr False, empty_index) \<and>
   fst (upload_document ok_host echo_env fresh_app
          \<lparr>filename = Some ''notes.TXT'', file_contents = ''hello''\<rparr>) =
     Inl (HTTPException 400 FailedToIndexDocument)"
proof -
  have a: "snd (splitext ''notes.TXT'') \<notin> allowed_extensions"
    by (simp add: ext_TXT allowed_extensions_def)
  have b: "lower (snd (splitext ''notes.TXT'')) \<in> allowed_extensions"
    by (simp add: ext_TXT allowed_extensions_def lower_def lower_char_def)
  have h: "rag_enabled fresh_app \<and>
          makedirs ok_host (disk fresh_app) ''uploads'' = Inr Map.empty \<and>
          write_file ok_host Map.empty (''uploads/'' @ ''notes.TXT'') ''hello'' =
            Inr [''uploads/notes.TXT'' \<mapsto> ''hello''] \<and>
          insert_document_record ok_host (document_db fresh_app) ''notes.TXT'' =
            Inr (1, (1, [(1, ''notes.TXT'')])) \<and>
          delete_document_record ok_host (1, [(1, ''notes.TXT'')]) 1 = Inr (1, [])"
    by (simp add: fresh_app_def ok_host_def)
  show ?thesis
    using a b h
      uppercase_extension_fails [OF a b, of echo_env "[''uploads/notes.TXT'' \<mapsto> ''hello'']"
        empty_index 1 fresh_app ok_host Map.empty "''hello''"
        "[''uploads/notes.TXT'' \<mapsto> ''hello'']" 1 "(1, [(1, ''notes.TXT'')])" "(1, [])"]
    by simp
qed

section \<open>Answering a question\<close>

text \<open>
  Claim C8. For every question the answer pipeline retrieves with \<open>k = 2\<close>, joins the
  texts of the retrieved chunks in their rank order with a blank line, renders the
  prompt of the fixed system instruction, the context and the question, calls the
  model at temperature 0, and returns the text of the completion as the answer. An
  error of the retrieval or of the model is the result instead.
\<close>

theorem answer_pipeline:
  "get_rag_chain_invoke E api_key idx model question =
     (case vi_search E idx question 2 of
        Inl e \<Rightarrow> Inl e
      | Inr docs \<Rightarrow>
          (case llm_invoke E
                  \<lparr>llm_model = model, llm_api_key = api_key, llm_temperature = 0\<rparr>
                  [SystemMessage system_instruction,
                   SystemMessage (''Context:'' @ [newline] @
                                  join [newline, newline] (map page_content docs)),
                   HumanMessage question] of
             Inl e \<Rightarrow> Inl e
           | Inr completion \<Rightarrow> Inr [(''answer'', completion)]))"
  by (simp add: get_rag_chain_invoke_def rag_chain_def context_and_input_def retriever_def
      format_docs_def prompt_def llm_def split: sum.splits)

text \<open>
  On the index of two documents, with the model that answers with its context, the
  answer is the two chunks, best first, separated by a blank line.
\<close>

theorem answer_pipeline_witness:
  "get_rag_chain_invoke echo_env None two_docs_index ''gemini-2.5-flash''
       ''What color is the sky?'' =
     Inr [(''answer'', ''Context:'' @ [newline] @ ''The sky is blue.'' @ [newline, newline] @
                       ''The sea is deep.'')]"
  using answer_pipeline [of echo_env None two_docs_index "''gemini-2.5-flash''"
      "''What color is the sky?''"]
  by (simp add: vi_search_def echo_env_def two_docs_index_def sky_record_def sea_record_def
      chunk_of_def)

end
